theory Spec2Isabelle
  imports Main "HOL-Library.Word"
begin

unbundle bit_operations_syntax

section \<open>SequencerGUI: the serial communication engine (serialcommunication.cpp)\<close>

subsection \<open>Bytes and wire tags\<close>

type_synonym byte = "8 word"
type_synonym QByteArray = "byte list"

abbreviation tag_P :: byte where "tag_P \<equiv> 0x50"
abbreviation tag_S :: byte where "tag_S \<equiv> 0x53"
abbreviation tag_I :: byte where "tag_I \<equiv> 0x49"
abbreviation tag_H :: byte where "tag_H \<equiv> 0x48"
abbreviation tag_N :: byte where "tag_N \<equiv> 0x4E"
abbreviation tag_F :: byte where "tag_F \<equiv> 0x46"
abbreviation tag_D :: byte where "tag_D \<equiv> 0x44"

subsection \<open>The Sequence collaborator\<close>

text \<open>
  Modelled from the spec: the declarations of \<open>SequencePoint\<close> and \<open>Sequence\<close> (sequence.h)
  are not part of the source file. A point has a 16-bit \<open>duration\<close>, a 16-bit
  \<open>timeToTarget\<close> and one 8-bit value per dimension. A Sequence is taken through the
  interface the engine calls: \<open>point()\<close>, \<open>curPoint()\<close>, \<open>setCurPoint(i)\<close>, \<open>numPoints()\<close>
  and \<open>pointDim()\<close>. What \<open>point()\<close> returns at each cursor position is the field
  \<open>pointAt\<close>, so no assumption is made about a cursor that is out of range.
\<close>

record SequencePoint =
  point :: "byte list"
  duration :: "16 word"
  timeToTarget :: "16 word"

record Sequence =
  pointAt :: "int \<Rightarrow> SequencePoint"
  curPoint :: int
  numPoints :: int
  pointDim :: int

definition seq_point :: "Sequence \<Rightarrow> SequencePoint" where
  "seq_point q = pointAt q (curPoint q)"

definition setCurPoint :: "int \<Rightarrow> Sequence \<Rightarrow> Sequence" where
  "setCurPoint i q = q\<lparr>curPoint := i\<rparr>"

subsection \<open>Engine state\<close>

text \<open>
  Signals emitted by the engine, in order of emission. \<open>DebugMessage\<close> carries the payload
  bytes \<open>m_incomingData.mid(2, msgLength)\<close>; \<open>StreamError\<close> carries the offending byte the
  error string is built from.
\<close>

datatype signal = StreamStarted | StreamStopped | DebugMessage QByteArray | StreamError byte

text \<open>
  \<open>SerialCommunicationException\<close> is the exception the engine throws. \<open>NullPointer\<close> is a call
  through \<open>m_sequence\<close> while it is \<open>nullptr\<close>, \<open>QFatal\<close> the abort of \<open>qFatal\<close>.
\<close>

datatype error = SerialCommunicationException string | NullPointer | QFatal string

text \<open>
  The members of the class, followed by the parts of its environment that it acts on:
  the serial port (open flag, configured name and baud rate, the byte arrays handed to
  \<open>write\<close>), the Sequence objects it may point to (a store from addresses to objects),
  the sequences whose \<open>curPointChanged\<close> signal is connected to the engine, and the
  signals emitted so far.
\<close>

record SerialCommunication =
  m_sequence :: "nat option"
  m_isStreamMode :: bool
  m_isImmediateMode :: bool
  m_arduinoBoot_isActive :: bool
  m_incomingData :: QByteArray
  m_paused :: bool
  m_hardwareQueueFull :: bool
  port_isOpen :: bool
  port_name :: string
  port_baudRate :: int
  written :: "QByteArray list"
  sequences :: "nat \<Rightarrow> Sequence"
  connections :: "nat set"
  emitted :: "signal list"

type_synonym 'a outcome = "(error + 'a) \<times> SerialCommunication"

text \<open>The state the constructor builds, over a given store of Sequence objects.\<close>

definition constructed :: "(nat \<Rightarrow> Sequence) \<Rightarrow> SerialCommunication" where
  "constructed store =
     \<lparr> m_sequence = None, m_isStreamMode = False, m_isImmediateMode = False,
       m_arduinoBoot_isActive = False, m_incomingData = [], m_paused = False,
       m_hardwareQueueFull = False, port_isOpen = False, port_name = [],
       port_baudRate = 0, written = [], sequences = store, connections = {},
       emitted = [] \<rparr>"

text \<open>
  Modelled from the spec: the inline accessors \<open>isStreaming\<close>, \<open>isStreamMode\<close> and
  \<open>isImmediateMode\<close> are declared in serialcommunication.h, which is not part of the source
  file. A session is active when the engine is in stream mode or in immediate mode.
\<close>

definition isStreamMode :: "SerialCommunication \<Rightarrow> bool" where
  "isStreamMode s = m_isStreamMode s"

definition isImmediateMode :: "SerialCommunication \<Rightarrow> bool" where
  "isImmediateMode s = m_isImmediateMode s"

definition isStreaming :: "SerialCommunication \<Rightarrow> bool" where
  "isStreaming s = (m_isStreamMode s \<or> m_isImmediateMode s)"

subsection \<open>Packet construction and transmission\<close>

text \<open>
  \<open>createSequencePacketForPoint\<close>. The 16-bit fields are promoted to \<open>int\<close> before the
  shift and the mask. Bytes 1 and 3 are the result of the logical conjunction
  \<open>(x >> 8) && 0xFF\<close>, a \<open>bool\<close> stored into a \<open>char\<close>.
\<close>

definition createSequencePacketForPoint :: "SequencePoint \<Rightarrow> QByteArray" where
  "createSequencePacketForPoint p =
     [ tag_P,
       (if drop_bit 8 (ucast (duration p) :: 32 word) \<noteq> 0 then 1 else 0),
       ucast ((ucast (duration p) :: 32 word) AND 0xFF),
       (if drop_bit 8 (ucast (timeToTarget p) :: 32 word) \<noteq> 0 then 1 else 0),
       ucast ((ucast (timeToTarget p) :: 32 word) AND 0xFF) ]
     @ map (\<lambda>v. ucast ((ucast v :: 32 word) AND 0xFF)) (point p)"

text \<open>
  \<open>sendData\<close> hands the bytes to \<open>m_serialPort.write\<close>; a short or failed write is only
  logged.
\<close>

definition sendData :: "QByteArray \<Rightarrow> SerialCommunication \<Rightarrow> SerialCommunication" where
  "sendData dataToSend s = s\<lparr>written := written s @ [dataToSend]\<rparr>"

definition emit :: "signal \<Rightarrow> SerialCommunication \<Rightarrow> SerialCommunication" where
  "emit e s = s\<lparr>emitted := emitted s @ [e]\<rparr>"

subsection \<open>Session control\<close>

definition stop :: "SerialCommunication \<Rightarrow> unit outcome" where
  "stop s =
     (if \<not> isStreaming s then (Inl (SerialCommunicationException ''No stream to stop''), s)
      else
        let s1 = sendData [tag_H] s in
        case m_sequence s1 of
          None \<Rightarrow> (Inl NullPointer, s1)
        | Some a \<Rightarrow>
            let s2 = s1\<lparr>connections := connections s1 - {a}\<rparr>;
                s3 = s2\<lparr>m_sequence := None\<rparr>;
                s4 = (if isStreamMode s3 then emit StreamStopped s3 else s3)
            in (Inr (), s4\<lparr>m_paused := False, m_isStreamMode := False,
                            m_isImmediateMode := False, m_hardwareQueueFull := False,
                            m_incomingData := []\<rparr>))"

definition incrementCurPoint :: "SerialCommunication \<Rightarrow> unit outcome" where
  "incrementCurPoint s =
     (case m_sequence s of
        None \<Rightarrow> (Inl NullPointer, s)
      | Some a \<Rightarrow>
          let cur = curPoint (sequences s a) in
          if cur = numPoints (sequences s a) - 1 then stop s
          else (Inr (), s\<lparr>sequences := (sequences s)(a := setCurPoint (cur + 1) (sequences s a))\<rparr>))"

text \<open>
  \<open>arduinoBootFinished\<close>. The second byte of the start packet is the \<open>bool\<close>
  \<open>m_sequence->pointDim() && 0xFF\<close> appended as a \<open>char\<close>.
\<close>

definition arduinoBootFinished :: "SerialCommunication \<Rightarrow> unit outcome" where
  "arduinoBootFinished s =
     (if isStreaming s then
        (if \<not> isStreamMode s \<and> \<not> isImmediateMode s
         then (Inl (QFatal ''Unknown mode, we should never get here''), s)
         else
           case m_sequence s of
             None \<Rightarrow> (Inl NullPointer, s)
           | Some a \<Rightarrow>
               let startPacket =
                     [if isStreamMode s then tag_S else tag_I,
                      if pointDim (sequences s a) \<noteq> 0 then 1 else 0];
                   s1 = sendData startPacket s;
                   s2 = sendData (createSequencePacketForPoint (seq_point (sequences s1 a))) s1
               in if isStreamMode s2 then incrementCurPoint (emit StreamStarted s2)
                  else (Inr (), s2))
      else (Inr (), s))"

text \<open>The single-shot boot timer expires: it is no longer active and its slot runs.\<close>

definition arduinoBoot_timeout :: "SerialCommunication \<Rightarrow> unit outcome" where
  "arduinoBoot_timeout s = arduinoBootFinished (s\<lparr>m_arduinoBoot_isActive := False\<rparr>)"

text \<open>
  \<open>openSerial\<close>; \<open>opened\<close> is the result of \<open>m_serialPort.open(QIODevice::ReadWrite)\<close>.
\<close>

definition openSerial :: "string \<Rightarrow> int \<Rightarrow> bool \<Rightarrow> SerialCommunication \<Rightarrow> bool outcome" where
  "openSerial port baudRate opened s =
     (if isStreaming s
      then (Inl (SerialCommunicationException
                   ''Cannot open port while a sequence is being streamed''), s)
      else
        let s1 = (if port_isOpen s then s\<lparr>port_isOpen := False\<rparr> else s);
            s2 = s1\<lparr>port_name := port, port_baudRate := baudRate\<rparr>
        in if \<not> opened then (Inr False, s2)
           else (Inr True, s2\<lparr>port_isOpen := True, m_arduinoBoot_isActive := True\<rparr>))"

definition closeSerial :: "SerialCommunication \<Rightarrow> unit outcome" where
  "closeSerial s =
     (if isStreaming s
      then (Inl (SerialCommunicationException
                   ''Cannot close port while a sequence is being streamed''), s)
      else (Inr (), if port_isOpen s then s\<lparr>port_isOpen := False\<rparr> else s))"

definition startStream :: "nat \<Rightarrow> bool \<Rightarrow> SerialCommunication \<Rightarrow> unit outcome" where
  "startStream sequence startFromCurrent s =
     (if \<not> port_isOpen s
      then (Inl (SerialCommunicationException
                   ''Cannot start streaming with a closed serial port''), s)
      else if isStreaming s
      then (Inl (SerialCommunicationException
                   ''Cannot start a new stream while a sequence is already being streamed''), s)
      else
        let s1 = s\<lparr>m_incomingData := [], m_paused := False, m_isStreamMode := True,
                   m_isImmediateMode := False, m_hardwareQueueFull := False,
                   m_sequence := Some sequence\<rparr>;
            s2 = (if \<not> startFromCurrent
                  then s1\<lparr>sequences := (sequences s1)
                             (sequence := setCurPoint 0 (sequences s1 sequence))\<rparr>
                  else s1)
        in if \<not> m_arduinoBoot_isActive s2 then arduinoBootFinished s2 else (Inr (), s2))"

definition pauseStream :: "SerialCommunication \<Rightarrow> unit outcome" where
  "pauseStream s =
     (if \<not> isStreamMode s
      then (Inl (SerialCommunicationException
                   ''Cannot pause when no sequence is being streamed''), s)
      else (Inr (), s\<lparr>m_paused := True\<rparr>))"

definition resumeStream :: "SerialCommunication \<Rightarrow> unit outcome" where
  "resumeStream s =
     (if \<not> isStreamMode s
      then (Inl (SerialCommunicationException
                   ''Cannot pause when no sequence is being streamed''), s)
      else if \<not> m_paused s then (Inr (), s)
      else
        let s1 = s\<lparr>m_paused := False\<rparr> in
        if \<not> m_hardwareQueueFull s1 then
          (case m_sequence s1 of
             None \<Rightarrow> (Inl NullPointer, s1)
           | Some a \<Rightarrow>
               incrementCurPoint
                 (sendData (createSequencePacketForPoint (seq_point (sequences s1 a))) s1))
        else (Inr (), s1))"

definition startImmediate :: "nat \<Rightarrow> SerialCommunication \<Rightarrow> unit outcome" where
  "startImmediate sequence s =
     (if \<not> port_isOpen s
      then (Inl (SerialCommunicationException
                   ''Cannot start streaming with a closed serial port''), s)
      else if isStreaming s
      then (Inl (SerialCommunicationException
                   ''Cannot start a new stream while a sequence is already being streamed''), s)
      else
        let s1 = s\<lparr>m_incomingData := [], m_isStreamMode := False, m_isImmediateMode := True,
                   m_sequence := Some sequence\<rparr>;
            s2 = s1\<lparr>connections := insert sequence (connections s1)\<rparr>
        in if \<not> m_arduinoBoot_isActive s2 then arduinoBootFinished s2 else (Inr (), s2))"

definition curPointChanged :: "SerialCommunication \<Rightarrow> unit outcome" where
  "curPointChanged s =
     (if \<not> isImmediateMode s then (Inr (), s)
      else case m_sequence s of
             None \<Rightarrow> (Inl NullPointer, s)
           | Some a \<Rightarrow>
               (Inr (), sendData (createSequencePacketForPoint (seq_point (sequences s a))) s))"

subsection \<open>Decoding incoming bytes\<close>

text \<open>
  One iteration of the \<open>while\<close> loop of \<open>handleReadyRead\<close>, entered with a non-empty buffer
  whose first byte is \<open>b\<close>. The result is the value of \<open>partialPacket\<close> after the
  iteration. \<open>remove(0, 1)\<close> is \<open>drop 1\<close>, which also leaves an empty array empty.
\<close>

definition handleReadyRead_body :: "byte \<Rightarrow> SerialCommunication \<Rightarrow> bool outcome" where
  "handleReadyRead_body b s =
     (if isStreamMode s \<and> b = tag_N then
        (let s1 = s\<lparr>m_hardwareQueueFull := False\<rparr> in
         case m_sequence s1 of
           None \<Rightarrow> (Inl NullPointer, s1)
         | Some a \<Rightarrow>
             (case incrementCurPoint
                     (sendData (createSequencePacketForPoint (seq_point (sequences s1 a))) s1) of
                (Inl e, s2) \<Rightarrow> (Inl e, s2)
              | (Inr u, s2) \<Rightarrow> (Inr False, s2\<lparr>m_incomingData := drop 1 (m_incomingData s2)\<rparr>)))
      else if isStreamMode s \<and> b = tag_F then
        (let s1 = s\<lparr>m_hardwareQueueFull := True\<rparr>
         in (Inr False, s1\<lparr>m_incomingData := drop 1 (m_incomingData s1)\<rparr>))
      else if b = tag_D then
        (if length (m_incomingData s) < 2 then (Inr True, s)
         else
           let msgLength = unat (m_incomingData s ! 1) in
           if length (m_incomingData s) < 2 + msgLength then (Inr True, s)
           else (Inr False, emit (DebugMessage (take msgLength (drop 2 (m_incomingData s)))) s))
      else
        (let s1 = emit (StreamError b) s
         in (Inr False, s1\<lparr>m_incomingData := drop 1 (m_incomingData s1)\<rparr>)))"

text \<open>
  The \<open>while\<close> loop. It may run forever, so the result is optional: \<open>None\<close> means that the
  loop does not return.
\<close>

partial_function (option) handleReadyRead_loop ::
  "bool \<Rightarrow> SerialCommunication \<Rightarrow> unit outcome option" where
  "handleReadyRead_loop partialPacket s =
     (case m_incomingData s of
        [] \<Rightarrow> Some (Inr (), s)
      | b # rest \<Rightarrow>
          if partialPacket then Some (Inr (), s)
          else (case handleReadyRead_body b s of
                  (Inl e, s') \<Rightarrow> Some (Inl e, s')
                | (Inr pp, s') \<Rightarrow> handleReadyRead_loop pp s'))"

text \<open>\<open>handleReadyRead\<close>; \<open>incoming\<close> is the result of \<open>m_serialPort.readAll()\<close>.\<close>

definition handleReadyRead :: "QByteArray \<Rightarrow> SerialCommunication \<Rightarrow> unit outcome option" where
  "handleReadyRead incoming s =
     handleReadyRead_loop False (s\<lparr>m_incomingData := m_incomingData s @ incoming\<rparr>)"

subsection \<open>Frames and concrete engine states\<close>

text \<open>
  The head of a buffer holds a complete debug frame: the tag \<open>D\<close>, a length byte and at
  least that many payload bytes.
\<close>

definition holds_complete_debug_frame :: "QByteArray \<Rightarrow> bool" where
  "holds_complete_debug_frame buf =
     (case buf of b # len # payload \<Rightarrow> b = tag_D \<and> unat len \<le> length payload | _ \<Rightarrow> False)"

text \<open>
  A sequence of three two-dimensional points with the cursor on the first one, and an
  engine that streams the sequence stored at address 0 over an open port.
\<close>

definition three_points :: Sequence where
  "three_points =
     \<lparr> pointAt = (\<lambda>i. \<lparr> point = [10, 20], duration = 0x1234, timeToTarget = 0x0005 \<rparr>),
       curPoint = 0, numPoints = 3, pointDim = 2 \<rparr>"

definition streaming_engine :: "Sequence \<Rightarrow> SerialCommunication" where
  "streaming_engine q =
     (constructed (\<lambda>a. q))\<lparr>port_isOpen := True, m_isStreamMode := True, m_sequence := Some 0\<rparr>"

subsection \<open>Events of a running session\<close>

text \<open>
  What can happen to the engine while a stream goes on: the calls \<open>pauseStream\<close> and
  \<open>resumeStream\<close>, the arrival of bytes (the slot \<open>handleReadyRead\<close>) and the expiry of
  the boot timer. The timer is single-shot: its \<open>timeout\<close> signal is emitted only while
  it is active, so on an inactive timer the event does nothing.
\<close>

datatype event = PauseStream | ResumeStream | ReadyRead QByteArray | BootTimeout

definition fire :: "event \<Rightarrow> SerialCommunication \<Rightarrow> unit outcome option" where
  "fire e s =
     (case e of
        PauseStream \<Rightarrow> Some (pauseStream s)
      | ResumeStream \<Rightarrow> Some (resumeStream s)
      | ReadyRead incoming \<Rightarrow> handleReadyRead incoming s
      | BootTimeout \<Rightarrow>
          if m_arduinoBoot_isActive s then Some (arduinoBoot_timeout s) else Some (Inr (), s))"

text \<open>
  A list of events, one after the other; an exception ends the run, and a decode pass
  that does not return leaves the run without a result.
\<close>

fun run :: "event list \<Rightarrow> SerialCommunication \<Rightarrow> unit outcome option" where
  "run [] s = Some (Inr (), s)"
| "run (e # es) s =
     (case fire e s of
        None \<Rightarrow> None
      | Some (Inl x, s') \<Rightarrow> Some (Inl x, s')
      | Some (Inr u, s') \<Rightarrow> run es s')"

text \<open>The event delivers the byte \<open>b\<close>.\<close>

fun carries :: "byte \<Rightarrow> event \<Rightarrow> bool" where
  "carries b (ReadyRead incoming) = (b \<in> set incoming)"
| "carries b PauseStream = False"
| "carries b ResumeStream = False"
| "carries b BootTimeout = False"

text \<open>
  A stream-mode engine whose hardware-queue-full flag is set, whose boot timer is no
  longer running and whose buffer holds no \<open>N\<close>.
\<close>

definition held_back :: "SerialCommunication \<Rightarrow> bool" where
  "held_back s =
     (isStreamMode s \<and> m_hardwareQueueFull s \<and> \<not> m_arduinoBoot_isActive s
      \<and> tag_N \<notin> set (m_incomingData s))"

text \<open>
  The port was opened, a stream over \<open>three_points\<close> was started while the boot timer was
  still running (so the first transmission is deferred), and the stream was paused.
\<close>

definition booting_paused_engine :: SerialCommunication where
  "booting_paused_engine =
     snd (pauseStream (snd (startStream 0 False
       (snd (openSerial ''ttyUSB0'' 9600 True (constructed (\<lambda>a. three_points)))))))"

section \<open>Properties\<close>

lemmas engine_defs =
  handleReadyRead_body_def incrementCurPoint_def stop_def sendData_def emit_def
  isStreamMode_def isStreaming_def isImmediateMode_def setCurPoint_def Let_def

subsection \<open>Unfolding the decoding loop\<close>

lemma loop_empty: "m_incomingData s = [] \<Longrightarrow> handleReadyRead_loop pp s = Some (Inr (), s)"
  by (subst handleReadyRead_loop.simps) simp

lemma loop_partial: "handleReadyRead_loop True s = Some (Inr (), s)"
  by (subst handleReadyRead_loop.simps) (simp split: list.split)

lemma loop_step:
  "m_incomingData s = b # rest \<Longrightarrow> handleReadyRead_body b s = (Inr pp, s') \<Longrightarrow>
   handleReadyRead_loop False s = handleReadyRead_loop pp s'"
  by (subst handleReadyRead_loop.simps) simp

lemma loop_throw:
  "m_incomingData s = b # rest \<Longrightarrow> handleReadyRead_body b s = (Inl e, s') \<Longrightarrow>
   handleReadyRead_loop False s = Some (Inl e, s')"
  by (subst handleReadyRead_loop.simps) simp

subsection \<open>Passes that return\<close>

text \<open>
  An incomplete debug frame at the head ends the pass with the state as it is, and a
  buffer without the byte \<open>D\<close> is always worked off: every iteration on another byte
  throws, or removes that byte, or (through \<open>stop\<close>) clears the buffer.
\<close>

lemma loop_incomplete_debug_frame:
  assumes "m_incomingData s = tag_D # rest"
    and "\<not> holds_complete_debug_frame (m_incomingData s)"
  shows "handleReadyRead_loop False s = Some (Inr (), s)"
proof -
  from assms have "handleReadyRead_body tag_D s = (Inr True, s)"
    by (cases rest) (simp_all add: handleReadyRead_body_def holds_complete_debug_frame_def)
  from loop_step[OF assms(1) this] show ?thesis
    by (simp add: loop_partial)
qed

lemma body_progress:
  assumes "b \<noteq> tag_D" and "m_incomingData s = b # rest"
  shows "(\<exists>e s'. handleReadyRead_body b s = (Inl e, s'))
       \<or> (\<exists>s'. handleReadyRead_body b s = (Inr False, s')
              \<and> (m_incomingData s' = rest \<or> m_incomingData s' = []))"
  using assms by (auto simp: engine_defs split: option.splits)

lemma loop_returns_without_debug_frame:
  "tag_D \<notin> set (m_incomingData s) \<Longrightarrow> \<exists>r. handleReadyRead_loop False s = Some r"
proof (induction "m_incomingData s" arbitrary: s)
  case Nil
  then show ?case by (simp add: loop_empty)
next
  case (Cons b rest)
  from Cons.hyps(2) have buf: "m_incomingData s = b # rest" by simp
  from Cons.prems buf have nd: "b \<noteq> tag_D" and ndr: "tag_D \<notin> set rest" by auto
  from body_progress[OF nd buf] consider
      (throw) e s' where "handleReadyRead_body b s = (Inl e, s')"
    | (step) s' where "handleReadyRead_body b s = (Inr False, s')"
        and "m_incomingData s' = rest \<or> m_incomingData s' = []"
    by blast
  then show ?case
  proof cases
    case throw
    from loop_throw[OF buf throw] show ?thesis by simp
  next
    case step
    from step(2) have "\<exists>r. handleReadyRead_loop False s' = Some r"
    proof
      assume r: "m_incomingData s' = rest"
      show ?thesis by (rule Cons.hyps(1)) (use r ndr in simp_all)
    next
      assume "m_incomingData s' = []"
      then show ?thesis by (simp add: loop_empty)
    qed
    with loop_step[OF buf step(1)] show ?thesis by simp
  qed
qed

subsection \<open>A complete debug frame is never removed from the buffer\<close>

lemma complete_debug_frameE:
  assumes "holds_complete_debug_frame buf"
  obtains len payload where "buf = tag_D # len # payload" "unat len \<le> length payload"
  using assms by (auto simp: holds_complete_debug_frame_def split: list.splits)

lemma body_complete_debug_frame:
  assumes "m_incomingData s = tag_D # len # payload" "unat len \<le> length payload"
  shows "handleReadyRead_body tag_D s =
           (Inr False, emit (DebugMessage (take (unat len) payload)) s)"
  using assms by (simp add: handleReadyRead_body_def)

text \<open>
  If the loop returns from a state, then that state was not one with the flag down and a
  complete debug frame at the head: the iteration on such a state emits the message and
  leaves the buffer as it is, so the next iteration meets the same frame.
\<close>

lemma loop_returns_not_complete_debug_frame:
  assumes "handleReadyRead_loop pp s = Some r"
  shows "pp \<or> \<not> holds_complete_debug_frame (m_incomingData s)"
proof (rule handleReadyRead_loop.raw_induct
    [where P = "\<lambda>pp s r. pp \<or> \<not> holds_complete_debug_frame (m_incomingData s)", OF _ assms],
    goal_cases)
  case (1 loop pp s r)
  show ?case
  proof (rule ccontr)
    assume "\<not> (pp \<or> \<not> holds_complete_debug_frame (m_incomingData s))"
    then have npp: "\<not> pp" and st: "holds_complete_debug_frame (m_incomingData s)"
      by simp_all
    from st obtain len payload
      where buf: "m_incomingData s = tag_D # len # payload"
        and len: "unat len \<le> length payload"
      by (rule complete_debug_frameE)
    from 1(2) buf npp body_complete_debug_frame[OF buf len]
    have "loop False (emit (DebugMessage (take (unat len) payload)) s) = Some r"
      by simp
    from 1(1)[OF this] st show False
      by (simp add: emit_def)
  qed
qed

lemma loop_complete_debug_frame_diverges:
  "holds_complete_debug_frame (m_incomingData s) \<Longrightarrow> handleReadyRead_loop False s = None"
  using loop_returns_not_complete_debug_frame[of False s]
  by (cases "handleReadyRead_loop False s") auto

text \<open>
  C1: a buffer whose head holds a complete debug frame should give one DebugMessage and
  lose \<open>2 + len\<close> bytes. On the five bytes \<open>D 3 a b c\<close>, arriving at an idle engine, one
  iteration of the loop emits the message with the three payload bytes and leaves all
  five bytes in the buffer, and \<open>handleReadyRead\<close> does not return.
\<close>

theorem debug_frame_never_consumed:
  "m_incomingData (snd (handleReadyRead_body tag_D
      ((constructed (\<lambda>a. three_points))\<lparr>m_incomingData := [tag_D, 3, 0x61, 0x62, 0x63]\<rparr>)))
     = [tag_D, 3, 0x61, 0x62, 0x63]
   \<and> emitted (snd (handleReadyRead_body tag_D
      ((constructed (\<lambda>a. three_points))\<lparr>m_incomingData := [tag_D, 3, 0x61, 0x62, 0x63]\<rparr>)))
     = [DebugMessage [0x61, 0x62, 0x63]]
   \<and> handleReadyRead [tag_D, 3, 0x61, 0x62, 0x63] (constructed (\<lambda>a. three_points)) = None"
proof -
  have "handleReadyRead [tag_D, 3, 0x61, 0x62, 0x63] (constructed (\<lambda>a. three_points)) = None"
    unfolding handleReadyRead_def
    by (rule loop_complete_debug_frame_diverges)
      (simp add: holds_complete_debug_frame_def constructed_def)
  then show ?thesis
    by (simp add: handleReadyRead_body_def constructed_def emit_def isStreamMode_def)
qed

text \<open>
  C2: a decode pass should terminate for every buffer content and session mode. In stream
  mode, on the bytes \<open>0x7F D 0\<close> (an unknown byte, then a debug frame with an empty
  payload), \<open>handleReadyRead\<close> does not return: the unknown byte is discarded and the
  complete debug frame then stays at the head of the buffer.
\<close>

theorem decode_pass_does_not_terminate:
  "handleReadyRead [0x7F, tag_D, 0] (streaming_engine three_points) = None"
proof -
  let ?s = "(streaming_engine three_points)\<lparr>m_incomingData := [0x7F, tag_D, 0]\<rparr>"
  let ?s' = "(emit (StreamError 0x7F) ?s)\<lparr>m_incomingData := [tag_D, 0]\<rparr>"
  have b: "handleReadyRead_body 0x7F ?s = (Inr False, ?s')"
    by (simp add: handleReadyRead_body_def streaming_engine_def constructed_def emit_def
        isStreamMode_def)
  have "handleReadyRead_loop False ?s = handleReadyRead_loop False ?s'"
    by (rule loop_step[OF _ b]) simp
  also have "\<dots> = None"
    by (rule loop_complete_debug_frame_diverges) (simp add: holds_complete_debug_frame_def)
  finally show ?thesis
    by (simp add: handleReadyRead_def streaming_engine_def constructed_def)
qed

text \<open>
  C3: bytes 1 and 3 of a point packet should be the high bytes of \<open>duration\<close> and
  \<open>timeToTarget\<close>. For \<open>duration = 0x1234\<close> and \<open>timeToTarget = 0x0200\<close> the packet carries
  1 in both places, where the high bytes are \<open>0x12\<close> and \<open>0x02\<close>; the low bytes and the
  values are as described.
\<close>

theorem createSequencePacketForPoint_high_bytes:
  "createSequencePacketForPoint \<lparr> point = [10, 20], duration = 0x1234, timeToTarget = 0x0200 \<rparr>
     = [tag_P, 1, 0x34, 1, 0x00, 10, 20]"
  by (simp add: createSequencePacketForPoint_def)

text \<open>
  C4: the second byte of the start packet should be the dimensionality masked to 8 bits.
  Opening the port, starting a stream over a sequence of dimensionality 2 and letting
  the boot timer expire writes the start packet \<open>S 1\<close>, followed by the first point.
\<close>

theorem start_packet_dimension_byte:
  "written (snd (arduinoBoot_timeout
      (snd (startStream 0 False
        (snd (openSerial ''ttyUSB0'' 9600 True (constructed (\<lambda>a. three_points))))))))
   = [[tag_S, 1], [tag_P, 1, 0x34, 0, 0x05, 10, 20]]
   \<and> pointDim three_points = 2"
  by (simp add: arduinoBoot_timeout_def arduinoBootFinished_def startStream_def openSerial_def
      constructed_def isStreaming_def isStreamMode_def isImmediateMode_def sendData_def emit_def
      incrementCurPoint_def setCurPoint_def seq_point_def three_points_def
      createSequencePacketForPoint_def Let_def)

subsection \<open>Session control and flow control\<close>

text \<open>
  The three places that advance the cursor in stream mode: \<open>resumeStream\<close> when the queue
  is not full, the \<open>N\<close> branch of the decoding loop, and \<open>arduinoBootFinished\<close>. Each sends
  the current point and then calls \<open>incrementCurPoint\<close>.
\<close>

lemma resumeStream_advances:
  "isStreamMode s \<Longrightarrow> m_paused s \<Longrightarrow> \<not> m_hardwareQueueFull s \<Longrightarrow> m_sequence s = Some a \<Longrightarrow>
   resumeStream s =
     incrementCurPoint
       (sendData (createSequencePacketForPoint (seq_point (sequences s a)))
          (s\<lparr>m_paused := False\<rparr>))"
  by (simp add: resumeStream_def)

lemma arduinoBootFinished_advances:
  "isStreamMode s \<Longrightarrow> m_sequence s = Some a \<Longrightarrow>
   arduinoBootFinished s =
     incrementCurPoint
       (emit StreamStarted
          (sendData (createSequencePacketForPoint (seq_point (sequences s a)))
             (sendData [tag_S, if pointDim (sequences s a) \<noteq> 0 then 1 else 0] s)))"
  by (simp add: arduinoBootFinished_def isStreaming_def isStreamMode_def sendData_def Let_def)

lemma queue_ready_advances:
  "isStreamMode s \<Longrightarrow> m_sequence s = Some a \<Longrightarrow>
   incrementCurPoint
     (sendData (createSequencePacketForPoint (seq_point (sequences s a)))
        (s\<lparr>m_hardwareQueueFull := False\<rparr>)) = (Inr u, s') \<Longrightarrow>
   handleReadyRead_body tag_N s =
     (Inr False, s'\<lparr>m_incomingData := drop 1 (m_incomingData s')\<rparr>)"
  by (simp add: handleReadyRead_body_def)

text \<open>
  C5: in stream mode, with a sequence bound, the cursor advance \<open>incrementCurPoint\<close> at the
  last index triggers \<open>stop\<close>: the packet \<open>H\<close> is written, \<open>streamStopped\<close> is emitted,
  the session flags are cleared and the sequence is released, and the cursor of the
  sequence is not touched. At any other index the cursor moves to the next index and
  nothing else changes. A cursor that was inside \<open>0..numPoints-1\<close> is inside it
  afterwards.
\<close>

theorem incrementCurPoint_boundary:
  assumes "isStreamMode s" and "m_sequence s = Some a"
  shows "(curPoint (sequences s a) = numPoints (sequences s a) - 1 \<longrightarrow>
            incrementCurPoint s =
              (Inr (), s\<lparr>written := written s @ [[tag_H]],
                          connections := connections s - {a},
                          m_sequence := None,
                          emitted := emitted s @ [StreamStopped],
                          m_paused := False, m_isStreamMode := False,
                          m_isImmediateMode := False, m_hardwareQueueFull := False,
                          m_incomingData := []\<rparr>))
       \<and> (curPoint (sequences s a) \<noteq> numPoints (sequences s a) - 1 \<longrightarrow>
            incrementCurPoint s =
              (Inr (), s\<lparr>sequences := (sequences s)
                            (a := (sequences s a)\<lparr>curPoint := curPoint (sequences s a) + 1\<rparr>)\<rparr>))
       \<and> (0 \<le> curPoint (sequences s a) \<and> curPoint (sequences s a) < numPoints (sequences s a) \<longrightarrow>
            0 \<le> curPoint (sequences (snd (incrementCurPoint s)) a) \<and>
            curPoint (sequences (snd (incrementCurPoint s)) a)
              < numPoints (sequences (snd (incrementCurPoint s)) a))"
  using assms by (simp add: engine_defs)

theorem incrementCurPoint_boundary_witness:
  "incrementCurPoint (streaming_engine (three_points\<lparr>curPoint := 2\<rparr>)) =
     (Inr (), (constructed (\<lambda>a. three_points\<lparr>curPoint := 2\<rparr>))
                \<lparr>port_isOpen := True, written := [[tag_H]], emitted := [StreamStopped]\<rparr>)
   \<and> incrementCurPoint (streaming_engine three_points) =
       (Inr (), (streaming_engine three_points)\<lparr>sequences := (\<lambda>a. three_points)(0 := three_points\<lparr>curPoint := 1\<rparr>)\<rparr>)
   \<and> curPoint (sequences (snd (incrementCurPoint (streaming_engine three_points))) 0) = 1"
  using incrementCurPoint_boundary [of "streaming_engine (three_points\<lparr>curPoint := 2\<rparr>)" 0]
    incrementCurPoint_boundary [of "streaming_engine three_points" 0]
  by (simp add: streaming_engine_def constructed_def isStreamMode_def three_points_def)

text \<open>
  The scenario of the flow control: a paused stream-mode engine with an empty buffer
  receives \<open>F\<close>, which sets the hardware-queue-full flag and changes nothing else;
  \<open>resumeStream\<close> then only clears the pause flag; a following \<open>N\<close> clears the
  hardware-queue-full flag and writes the packet of the current point (followed by \<open>H\<close>
  when that point was the last one).
\<close>

lemma queue_full_scenario:
  assumes "isStreamMode s" and "m_paused s" and "m_sequence s = Some a"
    and "m_incomingData s = []"
  shows "handleReadyRead [tag_F] s = Some (Inr (), s\<lparr>m_hardwareQueueFull := True\<rparr>)
       \<and> resumeStream (s\<lparr>m_hardwareQueueFull := True\<rparr>) =
           (Inr (), s\<lparr>m_hardwareQueueFull := True, m_paused := False\<rparr>)
       \<and> (\<exists>s'. handleReadyRead [tag_N] (s\<lparr>m_hardwareQueueFull := True, m_paused := False\<rparr>) =
                  Some (Inr (), s')
              \<and> \<not> m_hardwareQueueFull s'
              \<and> written s' =
                  written s @ createSequencePacketForPoint (seq_point (sequences s a))
                    # (if curPoint (sequences s a) = numPoints (sequences s a) - 1
                       then [[tag_H]] else []))"
proof -
  let ?sF = "s\<lparr>m_hardwareQueueFull := True\<rparr>"
  let ?sR = "s\<lparr>m_hardwareQueueFull := True, m_paused := False\<rparr>"
  have "handleReadyRead [tag_F] s = Some (Inr (), ?sF)"
  proof -
    let ?s0 = "s\<lparr>m_incomingData := m_incomingData s @ [tag_F]\<rparr>"
    have buf: "m_incomingData ?s0 = tag_F # []" using assms by simp
    have body: "handleReadyRead_body tag_F ?s0 = (Inr False, ?sF)"
      using assms by (simp add: engine_defs)
    have "handleReadyRead [tag_F] s = handleReadyRead_loop False ?sF"
      unfolding handleReadyRead_def by (rule loop_step[OF buf body])
    also have "\<dots> = Some (Inr (), ?sF)"
      by (rule loop_empty) (simp add: assms)
    finally show ?thesis .
  qed
  moreover have "resumeStream ?sF = (Inr (), ?sR)"
    using assms by (simp add: resumeStream_def isStreamMode_def)
  moreover have "\<exists>s'. handleReadyRead [tag_N] ?sR = Some (Inr (), s')
              \<and> \<not> m_hardwareQueueFull s'
              \<and> written s' =
                  written s @ createSequencePacketForPoint (seq_point (sequences s a))
                    # (if curPoint (sequences s a) = numPoints (sequences s a) - 1
                       then [[tag_H]] else [])"
  proof -
    let ?s0 = "?sR\<lparr>m_incomingData := m_incomingData ?sR @ [tag_N]\<rparr>"
    have buf: "m_incomingData ?s0 = tag_N # []" using assms by simp
    obtain s1 where body: "handleReadyRead_body tag_N ?s0 = (Inr False, s1)"
      and buf1: "m_incomingData s1 = []"
      and qf: "\<not> m_hardwareQueueFull s1"
      and wr: "written s1 =
                  written s @ createSequencePacketForPoint (seq_point (sequences s a))
                    # (if curPoint (sequences s a) = numPoints (sequences s a) - 1
                       then [[tag_H]] else [])"
      using assms
      by (cases "curPoint (sequences s a) = numPoints (sequences s a) - 1")
        (simp_all add: engine_defs)
    have "handleReadyRead [tag_N] ?sR = handleReadyRead_loop False s1"
      unfolding handleReadyRead_def by (rule loop_step[OF buf body])
    also have "\<dots> = Some (Inr (), s1)" by (rule loop_empty[OF buf1])
    finally show ?thesis using qf wr by blast
  qed
  ultimately show ?thesis by blast
qed

text \<open>
  While the engine is held back, an iteration of the decoding loop on a byte other than
  \<open>N\<close> writes nothing, moves no cursor and leaves the engine held back; so does a whole
  pass, every event that delivers no \<open>N\<close>, and every list of such events.
\<close>

lemma body_held_back:
  assumes "held_back s" and "m_incomingData s = b # rest"
  shows "\<exists>pp s1. handleReadyRead_body b s = (Inr pp, s1) \<and> held_back s1
           \<and> written s1 = written s \<and> sequences s1 = sequences s
           \<and> set (m_incomingData s1) \<subseteq> set (m_incomingData s)"
  using assms by (auto simp: held_back_def handleReadyRead_body_def emit_def isStreamMode_def Let_def)

lemma loop_held_back:
  assumes "handleReadyRead_loop pp s = Some rs"
  shows "held_back s \<longrightarrow>
           fst rs = Inr () \<and> held_back (snd rs) \<and> written (snd rs) = written s
           \<and> sequences (snd rs) = sequences s
           \<and> set (m_incomingData (snd rs)) \<subseteq> set (m_incomingData s)"
proof (rule handleReadyRead_loop.raw_induct
    [where P = "\<lambda>pp s rs. held_back s \<longrightarrow>
           fst rs = Inr () \<and> held_back (snd rs) \<and> written (snd rs) = written s
           \<and> sequences (snd rs) = sequences s
           \<and> set (m_incomingData (snd rs)) \<subseteq> set (m_incomingData s)", OF _ assms],
    goal_cases)
  case (1 loop pp s rs)
  show ?case
  proof (intro impI)
    assume hb: "held_back s"
    show "fst rs = Inr () \<and> held_back (snd rs) \<and> written (snd rs) = written s
           \<and> sequences (snd rs) = sequences s
           \<and> set (m_incomingData (snd rs)) \<subseteq> set (m_incomingData s)"
    proof (cases "m_incomingData s")
      case Nil
      with 1(2) hb show ?thesis by auto
    next
      case (Cons b rest)
      show ?thesis
      proof (cases pp)
        case True
        with 1(2) Cons hb show ?thesis by auto
      next
        case False
        from body_held_back[OF hb Cons] obtain pp' s1
          where b: "handleReadyRead_body b s = (Inr pp', s1)" and hb1: "held_back s1"
            and q: "written s1 = written s" "sequences s1 = sequences s"
              "set (m_incomingData s1) \<subseteq> set (m_incomingData s)"
          by blast
        from 1(2) Cons False b have "loop pp' s1 = Some rs" by simp
        from 1(1)[OF this] hb1 q show ?thesis by auto
      qed
    qed
  qed
qed

lemma fire_held_back:
  assumes "held_back s" and "\<not> carries tag_N e" and "fire e s = Some (r, s')"
  shows "r = Inr () \<and> held_back s' \<and> written s' = written s \<and> sequences s' = sequences s"
proof (cases e)
  case PauseStream
  with assms show ?thesis
    by (auto simp: fire_def pauseStream_def held_back_def isStreamMode_def)
next
  case ResumeStream
  with assms show ?thesis
    by (auto simp: fire_def resumeStream_def held_back_def isStreamMode_def Let_def
        split: if_splits)
next
  case (ReadyRead incoming)
  let ?s0 = "s\<lparr>m_incomingData := m_incomingData s @ incoming\<rparr>"
  from assms ReadyRead have hb: "held_back ?s0"
    by (simp add: held_back_def isStreamMode_def)
  from assms(3) ReadyRead have "handleReadyRead_loop False ?s0 = Some (r, s')"
    by (simp add: fire_def handleReadyRead_def)
  from loop_held_back[OF this] hb show ?thesis by simp
next
  case BootTimeout
  with assms show ?thesis
    by (auto simp: fire_def held_back_def)
qed

lemma run_held_back:
  "held_back s \<Longrightarrow> \<forall>e\<in>set es. \<not> carries tag_N e \<Longrightarrow> run es s = Some (r, s') \<Longrightarrow>
   r = Inr () \<and> held_back s' \<and> written s' = written s \<and> sequences s' = sequences s"
proof (induction es arbitrary: s)
  case Nil
  then show ?case by simp
next
  case (Cons e es)
  from Cons.prems(3) obtain r1 s1 where f: "fire e s = Some (r1, s1)"
    by (cases "fire e s") auto
  from fire_held_back[OF Cons.prems(1) _ f] Cons.prems(2)
  have r1: "r1 = Inr ()" and hb1: "held_back s1"
    and q: "written s1 = written s" "sequences s1 = sequences s" by auto
  from Cons.prems(3) f r1 have "run es s1 = Some (r, s')" by simp
  from Cons.IH[OF hb1 _ this] Cons.prems(2) q show ?case by auto
qed

lemma loop_returns_held_back:
  assumes "held_back s" and "tag_D \<notin> set (m_incomingData s)"
  shows "\<exists>s'. handleReadyRead_loop False s = Some (Inr (), s') \<and> tag_D \<notin> set (m_incomingData s')"
proof -
  from loop_returns_without_debug_frame[OF assms(2)] obtain r s'
    where l: "handleReadyRead_loop False s = Some (r, s')" by fastforce
  from loop_held_back[OF l] assms show ?thesis using l by auto
qed

lemma run_returns_held_back:
  "held_back s \<Longrightarrow> tag_D \<notin> set (m_incomingData s) \<Longrightarrow>
   \<forall>e\<in>set es. \<not> carries tag_N e \<and> \<not> carries tag_D e \<Longrightarrow>
   \<exists>s'. run es s = Some (Inr (), s')"
proof (induction es arbitrary: s)
  case Nil
  then show ?case by simp
next
  case (Cons e es)
  have "\<exists>s1. fire e s = Some (Inr (), s1) \<and> tag_D \<notin> set (m_incomingData s1)"
  proof (cases e)
    case PauseStream
    with Cons.prems show ?thesis
      by (simp add: fire_def pauseStream_def held_back_def)
  next
    case ResumeStream
    with Cons.prems show ?thesis
      by (simp add: fire_def resumeStream_def held_back_def isStreamMode_def Let_def)
  next
    case (ReadyRead incoming)
    let ?s0 = "s\<lparr>m_incomingData := m_incomingData s @ incoming\<rparr>"
    from Cons.prems ReadyRead have "held_back ?s0" "tag_D \<notin> set (m_incomingData ?s0)"
      by (simp_all add: held_back_def isStreamMode_def)
    from loop_returns_held_back[OF this] ReadyRead show ?thesis
      by (simp add: fire_def handleReadyRead_def)
  next
    case BootTimeout
    with Cons.prems show ?thesis
      by (simp add: fire_def held_back_def)
  qed
  then obtain s1 where f: "fire e s = Some (Inr (), s1)" and nd: "tag_D \<notin> set (m_incomingData s1)"
    by blast
  from fire_held_back[OF Cons.prems(1) _ f] Cons.prems(3) have hb1: "held_back s1" by auto
  from Cons.IH[OF hb1 nd] Cons.prems(3) f show ?case by auto
qed

text \<open>
  C6: in stream mode, once a QueueFull event has set the
  hardware-queue-full flag, \<open>resumeStream\<close> from the paused state writes no packet, moves
  no cursor and leaves the flag set. When the boot timer is no longer running, the same
  holds for every list of \<open>pauseStream\<close> calls, \<open>resumeStream\<close> calls, timer events and
  arrivals of bytes among which there is no \<open>N\<close>: if the list returns, it returns
  normally with nothing written, no cursor moved and the flag still set, and it does
  return when no \<open>D\<close> arrives either. A following \<open>N\<close> clears the flag and writes the
  packet of the current point.
\<close>

theorem queue_full_holds_points_back:
  assumes "isStreamMode s" and "m_paused s" and "m_sequence s = Some a"
    and "m_incomingData s = []"
  shows "handleReadyRead [tag_F] s = Some (Inr (), s\<lparr>m_hardwareQueueFull := True\<rparr>)
       \<and> resumeStream (s\<lparr>m_hardwareQueueFull := True\<rparr>) =
           (Inr (), s\<lparr>m_hardwareQueueFull := True, m_paused := False\<rparr>)
       \<and> (\<not> m_arduinoBoot_isActive s \<longrightarrow>
            (\<forall>es r s'. (\<forall>e\<in>set es. \<not> carries tag_N e) \<longrightarrow>
                 run es (s\<lparr>m_hardwareQueueFull := True\<rparr>) = Some (r, s') \<longrightarrow>
                 r = Inr () \<and> written s' = written s \<and> sequences s' = sequences s
                 \<and> m_hardwareQueueFull s'))
       \<and> (\<not> m_arduinoBoot_isActive s \<longrightarrow>
            (\<forall>es. (\<forall>e\<in>set es. \<not> carries tag_N e \<and> \<not> carries tag_D e) \<longrightarrow>
                 (\<exists>s'. run es (s\<lparr>m_hardwareQueueFull := True\<rparr>) = Some (Inr (), s'))))
       \<and> (\<exists>s'. handleReadyRead [tag_N] (s\<lparr>m_hardwareQueueFull := True, m_paused := False\<rparr>) =
                  Some (Inr (), s')
              \<and> \<not> m_hardwareQueueFull s'
              \<and> written s' =
                  written s @ createSequencePacketForPoint (seq_point (sequences s a))
                    # (if curPoint (sequences s a) = numPoints (sequences s a) - 1
                       then [[tag_H]] else []))"
proof -
  let ?sF = "s\<lparr>m_hardwareQueueFull := True\<rparr>"
  note sc = queue_full_scenario[OF assms]
  have quiet: "r = Inr () \<and> written s' = written s \<and> sequences s' = sequences s
                 \<and> m_hardwareQueueFull s'"
    if "\<not> m_arduinoBoot_isActive s" and "\<forall>e\<in>set es. \<not> carries tag_N e"
      and "run es ?sF = Some (r, s')" for es r s'
  proof -
    from assms that(1) have "held_back ?sF"
      by (simp add: held_back_def isStreamMode_def)
    from run_held_back[OF this that(2,3)] show ?thesis
      by (simp add: held_back_def)
  qed
  have returns: "\<exists>s'. run es ?sF = Some (Inr (), s')"
    if "\<not> m_arduinoBoot_isActive s"
      and "\<forall>e\<in>set es. \<not> carries tag_N e \<and> \<not> carries tag_D e" for es
  proof -
    from assms that(1) have "held_back ?sF" "tag_D \<notin> set (m_incomingData ?sF)"
      by (simp_all add: held_back_def isStreamMode_def)
    from run_returns_held_back[OF this that(2)] show ?thesis .
  qed
  from sc quiet returns show ?thesis by blast
qed

theorem queue_full_holds_points_back_witness:
  "handleReadyRead [tag_F] ((streaming_engine three_points)\<lparr>m_paused := True\<rparr>) =
     Some (Inr (), (streaming_engine three_points)\<lparr>m_paused := True, m_hardwareQueueFull := True\<rparr>)
   \<and> resumeStream ((streaming_engine three_points)\<lparr>m_paused := True, m_hardwareQueueFull := True\<rparr>) =
       (Inr (), (streaming_engine three_points)\<lparr>m_paused := False, m_hardwareQueueFull := True\<rparr>)
   \<and> (\<exists>s'. run [ResumeStream, ReadyRead [tag_F, 0x7F], PauseStream, ResumeStream, BootTimeout]
               ((streaming_engine three_points)\<lparr>m_paused := True, m_hardwareQueueFull := True\<rparr>) =
                  Some (Inr (), s')
              \<and> written s' = [] \<and> sequences s' = (\<lambda>a. three_points) \<and> m_hardwareQueueFull s')
   \<and> (\<exists>s'. handleReadyRead [tag_N]
               ((streaming_engine three_points)\<lparr>m_paused := False, m_hardwareQueueFull := True\<rparr>) =
                  Some (Inr (), s')
              \<and> \<not> m_hardwareQueueFull s'
              \<and> written s' = [[tag_P, 1, 0x34, 0, 0x05, 10, 20]])"
proof -
  let ?S = "(streaming_engine three_points)\<lparr>m_paused := True\<rparr>"
  let ?es = "[ResumeStream, ReadyRead [tag_F, 0x7F], PauseStream, ResumeStream, BootTimeout]"
  have h: "isStreamMode ?S" "m_paused ?S" "m_sequence ?S = Some 0" "m_incomingData ?S = []"
    and nb: "\<not> m_arduinoBoot_isActive ?S"
    by (simp_all add: streaming_engine_def constructed_def isStreamMode_def)
  note t = queue_full_holds_points_back[OF h]
  have q: "\<forall>e\<in>set ?es. \<not> carries tag_N e \<and> \<not> carries tag_D e" by simp
  from t nb q obtain s' where r: "run ?es (?S\<lparr>m_hardwareQueueFull := True\<rparr>) = Some (Inr (), s')"
    by blast
  from q have "\<forall>e\<in>set ?es. \<not> carries tag_N e" by simp
  with t nb r have "written s' = written ?S \<and> sequences s' = sequences ?S \<and> m_hardwareQueueFull s'"
    by blast
  with r have "\<exists>s'. run ?es (?S\<lparr>m_hardwareQueueFull := True\<rparr>) = Some (Inr (), s')
              \<and> written s' = [] \<and> sequences s' = (\<lambda>a. three_points) \<and> m_hardwareQueueFull s'"
    by (auto simp: streaming_engine_def constructed_def)
  with t show ?thesis
    by (simp add: streaming_engine_def constructed_def three_points_def
      seq_point_def createSequencePacketForPoint_def)
qed

text \<open>
  The restriction to an engine whose boot timer has expired is needed. On the engine
  that was started and paused while the timer was running, \<open>F\<close> sets the flag and
  \<open>resumeStream\<close> writes nothing; the timer then expires and \<open>arduinoBootFinished\<close>,
  which does not look at the flag, writes the start packet and the first point and moves
  the cursor to 1, with the flag still set and no \<open>N\<close> received.
\<close>

theorem boot_gate_ignores_queue_full:
  "isStreamMode booting_paused_engine \<and> m_paused booting_paused_engine
   \<and> m_sequence booting_paused_engine = Some 0 \<and> m_incomingData booting_paused_engine = []
   \<and> written booting_paused_engine = []
   \<and> run [ReadyRead [tag_F], ResumeStream] booting_paused_engine =
       Some (Inr (), booting_paused_engine\<lparr>m_hardwareQueueFull := True, m_paused := False\<rparr>)
   \<and> run [ReadyRead [tag_F], ResumeStream, BootTimeout] booting_paused_engine =
       Some (Inr (), booting_paused_engine
         \<lparr>m_hardwareQueueFull := True, m_paused := False, m_arduinoBoot_isActive := False,
          written := [[tag_S, 1], [tag_P, 1, 0x34, 0, 0x05, 10, 20]],
          emitted := [StreamStarted],
          sequences := (\<lambda>a. three_points)(0 := three_points\<lparr>curPoint := 1\<rparr>)\<rparr>)"
  by (simp add: booting_paused_engine_def fire_def handleReadyRead_def handleReadyRead_loop.simps
      pauseStream_def startStream_def openSerial_def resumeStream_def arduinoBoot_timeout_def
      arduinoBootFinished_def constructed_def three_points_def seq_point_def
      createSequencePacketForPoint_def engine_defs)

text \<open>
  C7: in stream mode with the pause flag false, \<open>resumeStream\<close> returns normally and leaves
  the whole state as it was: nothing is written to the port and no cursor changes.
\<close>

theorem resumeStream_not_paused_noop:
  "isStreamMode s \<Longrightarrow> \<not> m_paused s \<Longrightarrow> resumeStream s = (Inr (), s)"
  by (simp add: resumeStream_def)

theorem resumeStream_not_paused_noop_witness:
  "isStreamMode (streaming_engine three_points) \<and> \<not> m_paused (streaming_engine three_points)
   \<and> resumeStream (streaming_engine three_points) = (Inr (), streaming_engine three_points)"
  using resumeStream_not_paused_noop [of "streaming_engine three_points"]
  by (simp add: streaming_engine_def constructed_def isStreamMode_def)

text \<open>
  C8: a call that violates its precondition throws \<open>SerialCommunicationException\<close> and
  leaves the whole state as it was: \<open>openSerial\<close> and \<open>closeSerial\<close> while a session is
  active, \<open>startStream\<close> and \<open>startImmediate\<close> while a session is active or the port is
  closed, \<open>pauseStream\<close> and \<open>resumeStream\<close> outside stream mode, \<open>stop\<close> without a
  session.
\<close>

theorem precondition_violation_keeps_state:
  "(isStreaming s \<longrightarrow>
      (\<exists>msg. openSerial port baudRate opened s = (Inl (SerialCommunicationException msg), s)))
   \<and> (isStreaming s \<longrightarrow>
      (\<exists>msg. closeSerial s = (Inl (SerialCommunicationException msg), s)))
   \<and> (isStreaming s \<or> \<not> port_isOpen s \<longrightarrow>
      (\<exists>msg. startStream sequence startFromCurrent s = (Inl (SerialCommunicationException msg), s)))
   \<and> (isStreaming s \<or> \<not> port_isOpen s \<longrightarrow>
      (\<exists>msg. startImmediate sequence s = (Inl (SerialCommunicationException msg), s)))
   \<and> (\<not> isStreamMode s \<longrightarrow>
      (\<exists>msg. pauseStream s = (Inl (SerialCommunicationException msg), s)))
   \<and> (\<not> isStreamMode s \<longrightarrow>
      (\<exists>msg. resumeStream s = (Inl (SerialCommunicationException msg), s)))
   \<and> (\<not> isStreaming s \<longrightarrow>
      (\<exists>msg. stop s = (Inl (SerialCommunicationException msg), s)))"
  by (simp add: openSerial_def closeSerial_def startStream_def startImmediate_def
      pauseStream_def resumeStream_def stop_def)

theorem precondition_violation_keeps_state_witness:
  "isStreaming (streaming_engine three_points)
   \<and> (\<exists>msg. openSerial ''ttyUSB0'' 9600 True (streaming_engine three_points)
              = (Inl (SerialCommunicationException msg), streaming_engine three_points))
   \<and> (\<exists>msg. closeSerial (streaming_engine three_points)
              = (Inl (SerialCommunicationException msg), streaming_engine three_points))
   \<and> (\<exists>msg. startStream 0 False (streaming_engine three_points)
              = (Inl (SerialCommunicationException msg), streaming_engine three_points))
   \<and> (\<exists>msg. startImmediate 0 (streaming_engine three_points)
              = (Inl (SerialCommunicationException msg), streaming_engine three_points))
   \<and> \<not> port_isOpen (constructed (\<lambda>a. three_points))
   \<and> \<not> isStreaming (constructed (\<lambda>a. three_points))
   \<and> \<not> isStreamMode (constructed (\<lambda>a. three_points))
   \<and> (\<exists>msg. startStream 0 False (constructed (\<lambda>a. three_points))
              = (Inl (SerialCommunicationException msg), constructed (\<lambda>a. three_points)))
   \<and> (\<exists>msg. startImmediate 0 (constructed (\<lambda>a. three_points))
              = (Inl (SerialCommunicationException msg), constructed (\<lambda>a. three_points)))
   \<and> (\<exists>msg. pauseStream (constructed (\<lambda>a. three_points))
              = (Inl (SerialCommunicationException msg), constructed (\<lambda>a. three_points)))
   \<and> (\<exists>msg. resumeStream (constructed (\<lambda>a. three_points))
              = (Inl (SerialCommunicationException msg), constructed (\<lambda>a. three_points)))
   \<and> (\<exists>msg. stop (constructed (\<lambda>a. three_points))
              = (Inl (SerialCommunicationException msg), constructed (\<lambda>a. three_points)))"
proof -
  have a: "isStreaming (streaming_engine three_points)"
    by (simp add: streaming_engine_def constructed_def isStreaming_def)
  have b: "\<not> port_isOpen (constructed (\<lambda>a. three_points))"
      "\<not> isStreaming (constructed (\<lambda>a. three_points))"
      "\<not> isStreamMode (constructed (\<lambda>a. three_points))"
    by (simp_all add: constructed_def isStreaming_def isStreamMode_def)
  show ?thesis
    using a b
      precondition_violation_keeps_state
        [of "streaming_engine three_points" "''ttyUSB0''" 9600 True 0 False]
      precondition_violation_keeps_state
        [of "constructed (\<lambda>a. three_points)" "''ttyUSB0''" 9600 True 0 False]
    by blast
qed

text \<open>
  C9: in stream mode with the pause flag set, an \<open>N\<close> arriving on an empty buffer still
  writes the packet of the current point and advances the cursor; the pause flag is not
  consulted (and stays set when the stream goes on). At the last index the advance is
  the \<open>stop\<close> of C5. This holds whatever the hardware-queue-full flag was; it is false
  afterwards.
\<close>

theorem queue_ready_while_paused:
  assumes "isStreamMode s" and "m_paused s" and "m_sequence s = Some a"
    and "m_incomingData s = []"
  shows "(curPoint (sequences s a) \<noteq> numPoints (sequences s a) - 1 \<longrightarrow>
            handleReadyRead [tag_N] s =
              Some (Inr (), s\<lparr>m_hardwareQueueFull := False,
                 written := written s @ [createSequencePacketForPoint (seq_point (sequences s a))],
                 sequences := (sequences s)
                    (a := (sequences s a)\<lparr>curPoint := curPoint (sequences s a) + 1\<rparr>)\<rparr>))
       \<and> (curPoint (sequences s a) = numPoints (sequences s a) - 1 \<longrightarrow>
            handleReadyRead [tag_N] s =
              Some (Inr (), s\<lparr>written := written s @
                     [createSequencePacketForPoint (seq_point (sequences s a)), [tag_H]],
                 connections := connections s - {a},
                 m_sequence := None,
                 emitted := emitted s @ [StreamStopped],
                 m_paused := False, m_isStreamMode := False,
                 m_isImmediateMode := False, m_hardwareQueueFull := False\<rparr>))"
proof -
  let ?s0 = "s\<lparr>m_incomingData := m_incomingData s @ [tag_N]\<rparr>"
  have buf: "m_incomingData ?s0 = tag_N # []" using assms by simp
  obtain r s1 where body: "handleReadyRead_body tag_N ?s0 = (Inr False, s1)"
    and buf1: "m_incomingData s1 = []"
    and s1: "s1 = (if curPoint (sequences s a) \<noteq> numPoints (sequences s a) - 1 then
         s\<lparr>m_hardwareQueueFull := False,
                 written := written s @ [createSequencePacketForPoint (seq_point (sequences s a))],
                 sequences := (sequences s)
                    (a := (sequences s a)\<lparr>curPoint := curPoint (sequences s a) + 1\<rparr>)\<rparr>
        else s\<lparr>written := written s @
                     [createSequencePacketForPoint (seq_point (sequences s a)), [tag_H]],
                 connections := connections s - {a},
                 m_sequence := None,
                 emitted := emitted s @ [StreamStopped],
                 m_paused := False, m_isStreamMode := False,
                 m_isImmediateMode := False, m_hardwareQueueFull := False\<rparr>)"
    using assms by (simp add: engine_defs)
  have "handleReadyRead [tag_N] s = handleReadyRead_loop False s1"
    unfolding handleReadyRead_def by (rule loop_step[OF buf body])
  also have "\<dots> = Some (Inr (), s1)" by (rule loop_empty[OF buf1])
  finally show ?thesis by (simp add: s1)
qed


theorem queue_ready_while_paused_witness:
  "handleReadyRead [tag_N] ((streaming_engine three_points)\<lparr>m_paused := True\<rparr>) =
     Some (Inr (), (streaming_engine three_points)
        \<lparr>m_paused := True, written := [[tag_P, 1, 0x34, 0, 0x05, 10, 20]],
         sequences := (\<lambda>a. three_points)(0 := three_points\<lparr>curPoint := 1\<rparr>)\<rparr>)"
  using queue_ready_while_paused [of "(streaming_engine three_points)\<lparr>m_paused := True\<rparr>" 0]
  by (simp add: streaming_engine_def constructed_def isStreamMode_def three_points_def
      seq_point_def createSequencePacketForPoint_def)

text \<open>
  C10: when an \<open>N\<close> at the head of the buffer is decoded with the cursor at the last
  index, the pass writes the point and \<open>H\<close>, emits \<open>streamStopped\<close> and nothing else, and
  returns with an empty buffer, whatever bytes \<open>rest\<close> followed the \<open>N\<close>.
\<close>

theorem stop_during_decode_discards_buffer:
  assumes "isStreamMode s" and "m_sequence s = Some a"
    and "curPoint (sequences s a) = numPoints (sequences s a) - 1"
    and "m_incomingData s @ incoming = tag_N # rest"
  shows "handleReadyRead incoming s =
           Some (Inr (), s\<lparr>written := written s @
                     [createSequencePacketForPoint (seq_point (sequences s a)), [tag_H]],
                 connections := connections s - {a},
                 m_sequence := None,
                 emitted := emitted s @ [StreamStopped],
                 m_paused := False, m_isStreamMode := False,
                 m_isImmediateMode := False, m_hardwareQueueFull := False,
                 m_incomingData := []\<rparr>)"
proof -
  let ?s0 = "s\<lparr>m_incomingData := m_incomingData s @ incoming\<rparr>"
  let ?s1 = "s\<lparr>written := written s @
                     [createSequencePacketForPoint (seq_point (sequences s a)), [tag_H]],
                 connections := connections s - {a},
                 m_sequence := None,
                 emitted := emitted s @ [StreamStopped],
                 m_paused := False, m_isStreamMode := False,
                 m_isImmediateMode := False, m_hardwareQueueFull := False,
                 m_incomingData := []\<rparr>"
  have buf: "m_incomingData ?s0 = tag_N # rest" using assms by simp
  have body: "handleReadyRead_body tag_N ?s0 = (Inr False, ?s1)"
    using assms(1-3) by (simp add: engine_defs)
  have "handleReadyRead incoming s = handleReadyRead_loop False ?s1"
    unfolding handleReadyRead_def by (rule loop_step[OF buf body])
  also have "\<dots> = Some (Inr (), ?s1)" by (rule loop_empty) simp
  finally show ?thesis .
qed

theorem stop_during_decode_discards_buffer_witness:
  "handleReadyRead [tag_N, 0x7F, tag_D, 0, tag_F] (streaming_engine (three_points\<lparr>curPoint := 2\<rparr>)) =
     Some (Inr (), (constructed (\<lambda>a. three_points\<lparr>curPoint := 2\<rparr>))
        \<lparr>port_isOpen := True, written := [[tag_P, 1, 0x34, 0, 0x05, 10, 20], [tag_H]],
         emitted := [StreamStopped]\<rparr>)"
  using stop_during_decode_discards_buffer
    [of "streaming_engine (three_points\<lparr>curPoint := 2\<rparr>)" 0 "[tag_N, 0x7F, tag_D, 0, tag_F]"
        "[0x7F, tag_D, 0, tag_F]"]
  by (simp add: streaming_engine_def constructed_def isStreamMode_def three_points_def
      seq_point_def createSequencePacketForPoint_def)

end
